theory Spec2Isabelle
  imports Main
begin

section \<open>Change classification of \<open>git_util.py\<close> (class \<open>GitUtil\<close>)\<close>

text \<open>
  The development embeds \<open>demisto_sdk/commands/common/git_util.py\<close>.  The class
  \<open>GitUtil\<close> holds one repository handle and answers four queries
  (\<open>modified_files\<close>, \<open>added_files\<close>, \<open>deleted_files\<close>, \<open>renamed_files\<close>) by
  combining three answers of the version-control library: the diff of a
  remote-tracking reference against the active branch, the diff of the index
  against the head commit, and the text of \<open>git status --short -u\<close>.

  Python raises are values of \<open>error + 'a\<close> (\<open>Inl\<close> the error), those of the
  library calls included; Python sets are HOL sets built from the lists the
  library yields; Python strings are \<open>string\<close>, a character standing for a
  code point below 256.
\<close>

subsection \<open>Strings\<close>

text \<open>\<open>s.startswith(p)\<close>.\<close>

definition startswith :: "string \<Rightarrow> string \<Rightarrow> bool" where
  "startswith s p = (take (length p) s = p)"

text \<open>
  \<open>prev_ver.replace('origin/', '')\<close>: every occurrence of \<open>origin/\<close>, found from
  the left and without overlap, is removed (not only a leading one).
\<close>

fun replace_origin :: "string \<Rightarrow> string" where
  "replace_origin [] = []"
| "replace_origin (c # cs) =
     (if startswith (c # cs) ''origin/'' then replace_origin (drop 6 cs)
      else c # replace_origin cs)"

text \<open>\<open>s.split(sep)\<close> for a one-character separator: never an empty list.\<close>

fun split_sep :: "char \<Rightarrow> string \<Rightarrow> string list" where
  "split_sep sep [] = [[]]"
| "split_sep sep (c # cs) =
     (if c = sep then [] # split_sep sep cs
      else (case split_sep sep cs of
              [] \<Rightarrow> [[c]]
            | w # ws \<Rightarrow> (c # w) # ws))"

text \<open>
  The code points below 256 that Python's \<open>str.isspace\<close>, \<open>strip()\<close> and
  \<open>split()\<close> take for white space: tab, line feed, vertical tab, form feed,
  carriage return, the four separators \<open>0x1c\<close> to \<open>0x1f\<close>, the space, the next
  line character \<open>0x85\<close> and the no-break space \<open>0xa0\<close>.
\<close>

definition isspace :: "char \<Rightarrow> bool" where
  "isspace c = (of_char c \<in> {9, 10, 11, 12, 13, 28, 29, 30, 31, 32, 133, 160 :: nat})"

text \<open>\<open>s.strip()\<close>.\<close>

definition strip :: "string \<Rightarrow> string" where
  "strip s = rev (dropWhile isspace (rev (dropWhile isspace s)))"

text \<open>
  \<open>s.split()\<close>: the maximal runs of characters that are not white space.  The
  first argument is the run being read.
\<close>

fun split_run :: "string \<Rightarrow> string \<Rightarrow> string list" where
  "split_run cur [] = (if cur = [] then [] else [cur])"
| "split_run cur (c # cs) =
     (if isspace c then (if cur = [] then split_run [] cs else cur # split_run [] cs)
      else split_run (cur @ [c]) cs)"

definition split_ws :: "string \<Rightarrow> string list" where
  "split_ws s = split_run [] s"

text \<open>
  \<open>s.upper()\<close>.  Below 256 the lower-case letters are \<open>a\<close> to \<open>z\<close> and \<open>0xe0\<close> to
  \<open>0xfe\<close> without the division sign \<open>0xf7\<close>, each 32 above its capital; the
  sharp s \<open>0xdf\<close> becomes \<open>SS\<close>; the micro sign \<open>0xb5\<close> and \<open>0xff\<close> have their
  capitals above 255, so the result is a string that no string of the model
  equals: \<open>None\<close>.
\<close>

definition upper_char :: "char \<Rightarrow> string option" where
  "upper_char c =
     (let n = (of_char c :: nat)
      in if 97 \<le> n \<and> n \<le> 122 then Some [char_of (n - 32)]
         else if n = 223 then Some ''SS''
         else if 224 \<le> n \<and> n \<le> 254 \<and> n \<noteq> 247 then Some [char_of (n - 32)]
         else if n = 181 \<or> n = 255 then None
         else Some [c])"

fun upper :: "string \<Rightarrow> string option" where
  "upper [] = Some []"
| "upper (c # cs) =
     (case upper_char c of
        None \<Rightarrow> None
      | Some u \<Rightarrow> (case upper cs of None \<Rightarrow> None | Some us \<Rightarrow> Some (u @ us)))"

subsection \<open>Paths\<close>

text \<open>
  \<open>pathlib.Path\<close> on a POSIX system.  A path is its list of parts, the root
  first when there is one; two paths are equal when their parts are.  Parsing
  drops empty components and \<open>.\<close> components, so \<open>Path('')\<close>, \<open>Path('.')\<close> and
  \<open>Path('./')\<close> are the same path, the one printed as \<open>.\<close>.  Exactly two
  leading slashes are a root of their own.  \<open>os.path.join\<close> of a single argument
  returns it unchanged.
\<close>

datatype path = PosixPath "string list"

definition splitroot :: "string \<Rightarrow> string \<times> string" where
  "splitroot part =
     (if startswith part ''/'' then
        (let stripped_part = dropWhile (\<lambda>c. c = CHR ''/'') part
         in if length part - length stripped_part = 2 then (''//'', stripped_part)
            else (''/'', stripped_part))
      else ('''', part))"

definition Path :: "string \<Rightarrow> path" where
  "Path s =
     (let (root, rel) = splitroot s
      in PosixPath ((if root = [] then [] else [root]) @
                    filter (\<lambda>x. x \<noteq> [] \<and> x \<noteq> ''.'') (split_sep CHR ''/'' rel)))"

subsection \<open>The repository handle\<close>

text \<open>
  The exceptions: \<open>InvalidGitRepositoryError\<close>, raised by the constructor;
  \<open>IndexError\<close>, raised by the library for \<open>refs[name]\<close> when the remote has no
  reference of that name, and by Python for an index beyond a token list;
  \<open>TypeError\<close>, raised by \<open>repo.active_branch\<close> when the head is detached;
  \<open>ValueError\<close>, raised by \<open>repo.remote()\<close> when there is no remote \<open>origin\<close>
  and by \<open>repo.head.commit\<close> when there is no commit; \<open>GitCommandError\<close>, raised
  when a git command fails.
\<close>

datatype error = InvalidGitRepositoryError | IndexError | TypeError | ValueError
  | GitCommandError

record diff_item =
  a_path :: string
  b_path :: string

text \<open>
  A diff, as the queries read it: the items that \<open>iter_change_type(k)\<close>
  yields, for each change type \<open>k\<close>.  A commit, as the queries use it:
  \<open>commit.diff(other)\<close>, a diff or a raise.
\<close>

type_synonym diff_index = "string \<Rightarrow> diff_item list"

type_synonym commit = "string \<Rightarrow> error + diff_index"

text \<open>
  What the queries read from the \<open>Repo\<close> object of the version-control library,
  taken as a parameter.  Every call can raise:
  \<^item> \<open>remote_refs\<close>: \<open>repo.remote().refs\<close>; \<open>refs[name]\<close> is absent for an unknown
    name, and a reference that is present gives its \<open>.commit\<close>;
  \<^item> \<open>active_branch\<close>: \<open>repo.active_branch\<close>, by its name;
  \<^item> \<open>head_diff\<close>: \<open>repo.head.commit.diff()\<close>;
  \<^item> \<open>git_status\<close>: the text of \<open>repo.git.status('--short', '-u')\<close>;
  \<^item> \<open>git_diff_name_only\<close>: the text of \<open>repo.git.diff('--name-only', range)\<close>.
\<close>

record repo =
  remote_refs :: "error + (string \<rightharpoonup> error + commit)"
  active_branch :: "error + string"
  head_diff :: "error + diff_index"
  git_status :: "error + string"
  git_diff_name_only :: "string \<Rightarrow> error + string"

text \<open>Sequencing: a raise ends the computation, a value is passed on.\<close>

definition and_then :: "error + 'a \<Rightarrow> ('a \<Rightarrow> error + 'b) \<Rightarrow> error + 'b" where
  "and_then x f = (case x of Inl e \<Rightarrow> Inl e | Inr v \<Rightarrow> f v)"


subsection \<open>The helpers\<close>

text \<open>
  \<open>_get_all_changed_files\<close>.  The range is formatted first, which reads
  \<open>repo.active_branch\<close>; then git is run.
\<close>

definition origin_prev_ver :: "string \<Rightarrow> string" where
  "origin_prev_ver prev_ver =
     (if startswith prev_ver ''origin/'' then prev_ver else ''origin/'' @ prev_ver)"

definition get_all_changed_files :: "repo \<Rightarrow> string \<Rightarrow> error + path set" where
  "get_all_changed_files r prev_ver =
     and_then (active_branch r) (\<lambda>branch.
     and_then (git_diff_name_only r (origin_prev_ver prev_ver @ ''...'' @ branch)) (\<lambda>text.
       Inr (set (map Path (split_sep CHR 0x0A text)))))"

text \<open>
  \<open>_get_untracked_files\<close>.  The Python set holds paths, or pairs of paths when
  the requested status is \<open>R\<close>.  The tokens of a line are \<open>line.split()\<close>;
  \<open>[0]\<close>, \<open>[-1]\<close> and \<open>[-2]\<close> raise \<open>IndexError\<close> when the list is too short.
  The lines are read in order, so the first line that raises ends the call.
\<close>

datatype entry = PathEntry path | PairEntry path path

definition untracked_line :: "string \<Rightarrow> string \<Rightarrow> error + entry list" where
  "untracked_line requested_status line0 =
     (let line = strip line0;
          toks = split_ws line
      in if \<not> startswith line ''?'' \<and> toks = [] then Inl IndexError
         else
           (let file_status = (if \<not> startswith line ''?'' then upper (hd toks) else Some ''A'')
            in if file_status = Some requested_status then
                 (if requested_status = ''R'' then
                    (if length toks < 2 then Inl IndexError
                     else Inr [PairEntry (Path (toks ! (length toks - 2)))
                                         (Path (toks ! (length toks - 1)))])
                  else (if toks = [] then Inl IndexError
                        else Inr [PathEntry (Path (last toks))]))
               else Inr []))"

fun untracked_lines :: "string \<Rightarrow> string list \<Rightarrow> error + entry list" where
  "untracked_lines requested_status [] = Inr []"
| "untracked_lines requested_status (l # ls) =
     (case untracked_line requested_status l of
        Inl e \<Rightarrow> Inl e
      | Inr es \<Rightarrow> (case untracked_lines requested_status ls of
                    Inl e \<Rightarrow> Inl e
                  | Inr fs \<Rightarrow> Inr (es @ fs)))"

definition get_untracked_files :: "repo \<Rightarrow> string \<Rightarrow> error + entry set" where
  "get_untracked_files r requested_status =
     and_then (git_status r) (\<lambda>text.
       (let git_status_lines = split_sep CHR 0x0A text
        in if git_status_lines = [''''] then Inr {}
           else and_then (untracked_lines requested_status git_status_lines) (\<lambda>es.
                  Inr (set es))))"

text \<open>The paths, and the pairs, of such a set.\<close>

definition paths_of :: "entry set \<Rightarrow> path set" where
  "paths_of es = (\<Union>e\<in>es. case e of PathEntry p \<Rightarrow> {p} | PairEntry a b \<Rightarrow> {})"

definition pairs_of :: "entry set \<Rightarrow> (path \<times> path) set" where
  "pairs_of es = (\<Union>e\<in>es. case e of PathEntry p \<Rightarrow> {} | PairEntry a b \<Rightarrow> {(a, b)})"

text \<open>
  \<open>repo.remote().refs[prev_ver].commit.diff(repo.active_branch)\<close>, in the order
  Python evaluates it: the remote and its references, the lookup, the commit,
  the argument, the call.
\<close>

definition committed_diff :: "repo \<Rightarrow> string \<Rightarrow> error + diff_index" where
  "committed_diff r prev_ver =
     and_then (remote_refs r) (\<lambda>refs.
       (case refs prev_ver of
          None \<Rightarrow> Inl IndexError
        | Some ref \<Rightarrow>
            and_then ref (\<lambda>ref_commit.
            and_then (active_branch r) (\<lambda>branch.
              ref_commit branch))))"

text \<open>
  The set comprehensions over a diff that the queries repeat:
  \<open>{Path(os.path.join(item.a_path)) for item in
  ... .iter_change_type(k)}\<close> over the diff of the reference and over
  \<open>repo.head.commit.diff()\<close>, and the same for the pairs
  \<open>(Path(item.a_path), Path(item.b_path))\<close>.
\<close>

definition committed_paths :: "repo \<Rightarrow> string \<Rightarrow> string \<Rightarrow> error + path set" where
  "committed_paths r prev_ver k =
     and_then (committed_diff r prev_ver) (\<lambda>d.
       Inr (set (map (\<lambda>item. Path (a_path item)) (d k))))"

definition staged_paths :: "repo \<Rightarrow> string \<Rightarrow> error + path set" where
  "staged_paths r k =
     and_then (head_diff r) (\<lambda>d. Inr (set (map (\<lambda>item. Path (a_path item)) (d k))))"

definition committed_pairs :: "repo \<Rightarrow> string \<Rightarrow> string \<Rightarrow> error + (path \<times> path) set" where
  "committed_pairs r prev_ver k =
     and_then (committed_diff r prev_ver) (\<lambda>d.
       Inr (set (map (\<lambda>item. (Path (a_path item), Path (b_path item))) (d k))))"

definition staged_pairs :: "repo \<Rightarrow> string \<Rightarrow> error + (path \<times> path) set" where
  "staged_pairs r k =
     and_then (head_diff r) (\<lambda>d.
       Inr (set (map (\<lambda>item. (Path (a_path item), Path (b_path item))) (d k))))"

subsection \<open>The four queries\<close>

text \<open>\<open>deleted_files\<close>.\<close>

definition deleted_files :: "repo \<Rightarrow> string \<Rightarrow> bool \<Rightarrow> bool \<Rightarrow> error + path set" where
  "deleted_files r prev_ver0 committed_only staged_only =
     (let prev_ver = replace_origin prev_ver0
      in and_then (committed_paths r prev_ver ''D'') (\<lambda>committed0.
         and_then (get_all_changed_files r prev_ver) (\<lambda>all_branch_changed_files.
           (let committed = committed0 \<inter> all_branch_changed_files
            in if committed_only then Inr committed
               else
                 and_then (get_untracked_files r ''D'') (\<lambda>untracked.
                 and_then (staged_paths r ''D'') (\<lambda>staged_index.
                   (let staged = staged_index \<union> paths_of untracked
                    in if staged_only then Inr staged
                       else Inr (staged \<union> committed))))))))"

text \<open>\<open>renamed_files\<close>: the pairs are (old path, new path).\<close>

definition renamed_files ::
  "repo \<Rightarrow> string \<Rightarrow> bool \<Rightarrow> bool \<Rightarrow> error + (path \<times> path) set" where
  "renamed_files r prev_ver0 committed_only staged_only =
     (let prev_ver = replace_origin prev_ver0
      in and_then (deleted_files r prev_ver committed_only staged_only) (\<lambda>deleted.
         and_then (committed_pairs r prev_ver ''R'') (\<lambda>committed0.
         and_then (get_all_changed_files r prev_ver) (\<lambda>all_branch_changed_files.
           (let committed = {tuple_item \<in> committed0.
                               snd tuple_item \<in> all_branch_changed_files \<and>
                               snd tuple_item \<notin> deleted}
            in if committed_only then Inr committed
               else
                 and_then (get_untracked_files r ''R'') (\<lambda>untracked.
                 and_then (staged_pairs r ''R'') (\<lambda>staged_index.
                   (let staged = staged_index \<union> pairs_of untracked
                    in if staged_only then Inr staged
                       else Inr (staged \<union> committed)))))))))"

text \<open>
  \<open>modified_files\<close>.  The set \<open>renamed\<close> holds \<open>item[0]\<close> of every renamed pair,
  the old path.
\<close>

definition modified_files :: "repo \<Rightarrow> string \<Rightarrow> bool \<Rightarrow> bool \<Rightarrow> error + path set" where
  "modified_files r prev_ver0 committed_only staged_only =
     (let prev_ver = replace_origin prev_ver0
      in and_then (renamed_files r prev_ver committed_only staged_only) (\<lambda>renamed_pairs.
           (let renamed = fst ` renamed_pairs
            in and_then (deleted_files r prev_ver committed_only staged_only) (\<lambda>deleted.
               and_then (committed_paths r prev_ver ''M'') (\<lambda>committed0.
               and_then (get_all_changed_files r prev_ver) (\<lambda>all_branch_changed_files.
                 (let committed = committed0 \<inter> all_branch_changed_files
                  in if committed_only then Inr (committed - renamed - deleted)
                     else
                       and_then (get_untracked_files r ''M'') (\<lambda>untracked.
                       and_then (staged_paths r ''M'') (\<lambda>staged_index.
                         (let staged0 = staged_index \<union> paths_of untracked
                          in and_then (committed_paths r prev_ver ''A'') (\<lambda>committed_added.
                               (let staged = staged0 - committed_added
                                in if staged_only then Inr (staged - renamed - deleted)
                                   else Inr (staged \<union> committed - renamed - deleted)))))))))))))"

text \<open>\<open>added_files\<close>.\<close>

definition added_files :: "repo \<Rightarrow> string \<Rightarrow> bool \<Rightarrow> bool \<Rightarrow> error + path set" where
  "added_files r prev_ver0 committed_only staged_only =
     (let prev_ver = replace_origin prev_ver0
      in and_then (deleted_files r prev_ver committed_only staged_only) (\<lambda>deleted.
         and_then (committed_paths r prev_ver ''A'') (\<lambda>committed0.
         and_then (get_all_changed_files r prev_ver) (\<lambda>all_branch_changed_files.
           (let committed = committed0 \<inter> all_branch_changed_files
            in if committed_only then Inr (committed - deleted)
               else
                 and_then (get_untracked_files r ''A'') (\<lambda>untracked.
                 and_then (staged_paths r ''A'') (\<lambda>staged_index.
                   (let staged0 = staged_index \<union> paths_of untracked
                    in and_then (staged_paths r ''M'') (\<lambda>staged_modified.
                         (let committed_added_locally_modified = staged_modified \<inter> committed;
                              staged = staged0 \<union> committed_added_locally_modified
                          in if staged_only then Inr (staged - deleted)
                             else Inr (staged \<union> committed - deleted)))))))))))"

subsection \<open>Status lines that can be read\<close>



subsection \<open>Example repositories\<close>

text \<open>
  A remote with the single reference \<open>name\<close>, whose commit has the diff \<open>d\<close>
  against the branch.
\<close>

definition one_reference :: "string \<Rightarrow> diff_index \<Rightarrow> error + (string \<rightharpoonup> error + commit)" where
  "one_reference name d = Inr [name \<mapsto> Inr (\<lambda>branch. Inr d)]"

text \<open>
  A feature branch compared with \<open>master\<close>.  Its commits add \<open>a.txt\<close>, modify
  \<open>m.txt\<close>, delete \<open>d.txt\<close> and rename \<open>x.txt\<close> to \<open>y.txt\<close>; the index holds
  further edits of \<open>a.txt\<close> and of \<open>b.txt\<close>; \<open>c.txt\<close> is untracked.
\<close>

definition repo_feature :: repo where
  "repo_feature = \<lparr>
     remote_refs = one_reference ''master''
       (\<lambda>k. if k = ''A'' then [\<lparr>a_path = ''a.txt'', b_path = ''a.txt''\<rparr>]
            else if k = ''M'' then [\<lparr>a_path = ''m.txt'', b_path = ''m.txt''\<rparr>]
            else if k = ''D'' then [\<lparr>a_path = ''d.txt'', b_path = ''d.txt''\<rparr>]
            else if k = ''R'' then [\<lparr>a_path = ''x.txt'', b_path = ''y.txt''\<rparr>]
            else []),
     active_branch = Inr ''feature'',
     head_diff = Inr
       (\<lambda>k. if k = ''M'' then [\<lparr>a_path = ''a.txt'', b_path = ''a.txt''\<rparr>,
                               \<lparr>a_path = ''b.txt'', b_path = ''b.txt''\<rparr>]
            else []),
     git_status = Inr (''M  a.txt'' @ [CHR 0x0A] @ ''M  b.txt'' @ [CHR 0x0A] @ ''?? c.txt''),
     git_diff_name_only =
       (\<lambda>range. if range = ''origin/master...feature''
                 then Inr (''a.txt'' @ [CHR 0x0A] @ ''d.txt'' @ [CHR 0x0A] @ ''m.txt''
                        @ [CHR 0x0A] @ ''y.txt'')
                 else Inl GitCommandError)\<rparr>"

text \<open>A branch without any change: every diff and the status text are empty.\<close>

definition repo_clean :: repo where
  "repo_clean = \<lparr>
     remote_refs = one_reference ''master'' (\<lambda>k. []),
     active_branch = Inr ''feature'',
     head_diff = Inr (\<lambda>k. []),
     git_status = Inr [],
     git_diff_name_only =
       (\<lambda>range. if range = ''origin/master...feature'' then Inr [] else Inl GitCommandError)\<rparr>"

text \<open>
  A reference that has moved on.  \<open>p.txt\<close> was removed on \<open>master\<close> after the
  branch left it, so the diff of \<open>master\<close> against the branch tip lists it as
  added although no commit of the branch touched it; the branch itself
  changed \<open>q.txt\<close> only.  An edit of \<open>p.txt\<close> is staged.
\<close>

definition repo_drift :: repo where
  "repo_drift = \<lparr>
     remote_refs = one_reference ''master''
       (\<lambda>k. if k = ''A'' then [\<lparr>a_path = ''p.txt'', b_path = ''p.txt''\<rparr>]
            else if k = ''M'' then [\<lparr>a_path = ''q.txt'', b_path = ''q.txt''\<rparr>]
            else []),
     active_branch = Inr ''feature'',
     head_diff = Inr
       (\<lambda>k. if k = ''M'' then [\<lparr>a_path = ''p.txt'', b_path = ''p.txt''\<rparr>] else []),
     git_status = Inr ''M  p.txt'',
     git_diff_name_only =
       (\<lambda>range. if range = ''origin/master...feature'' then Inr ''q.txt''
                 else Inl GitCommandError)\<rparr>"

text \<open>
  The same drift, with a file name that ends in a double quote.  The file
  \<open>x.txt"\<close> is added in the diff of \<open>master\<close> against the branch tip without
  having been touched on the branch, and an edit of it is staged; the
  untracked file \<open>a x.txt\<close> is in the working tree.  Git quotes both names in
  the status text, the first as \<open>"x.txt\""\<close> and the second as \<open>"a x.txt"\<close>, so
  the last token of the second line is \<open>x.txt"\<close>.
\<close>

definition repo_quoted_status :: repo where
  "repo_quoted_status = \<lparr>
     remote_refs = one_reference ''master''
       (\<lambda>k. if k = ''A'' then [\<lparr>a_path = ''x.txt'' @ [CHR 0x22],
                                b_path = ''x.txt'' @ [CHR 0x22]\<rparr>]
            else if k = ''M'' then [\<lparr>a_path = ''q.txt'', b_path = ''q.txt''\<rparr>]
            else []),
     active_branch = Inr ''feature'',
     head_diff = Inr
       (\<lambda>k. if k = ''M'' then [\<lparr>a_path = ''x.txt'' @ [CHR 0x22],
                                b_path = ''x.txt'' @ [CHR 0x22]\<rparr>]
            else []),
     git_status = Inr (''M  '' @ [CHR 0x22] @ ''x.txt'' @ [CHR 0x5C, CHR 0x22, CHR 0x22]
                       @ [CHR 0x0A] @ ''?? '' @ [CHR 0x22] @ ''a x.txt'' @ [CHR 0x22]),
     git_diff_name_only =
       (\<lambda>range. if range = ''origin/master...feature'' then Inr ''q.txt''
                 else Inl GitCommandError)\<rparr>"

text \<open>
  A rename that was committed, \<open>x.txt\<close> to \<open>y.txt\<close>, followed by an edit of
  \<open>y.txt\<close> that is staged.
\<close>

definition repo_rename_then_edit :: repo where
  "repo_rename_then_edit = \<lparr>
     remote_refs = one_reference ''master''
       (\<lambda>k. if k = ''R'' then [\<lparr>a_path = ''x.txt'', b_path = ''y.txt''\<rparr>] else []),
     active_branch = Inr ''feature'',
     head_diff = Inr
       (\<lambda>k. if k = ''M'' then [\<lparr>a_path = ''y.txt'', b_path = ''y.txt''\<rparr>] else []),
     git_status = Inr ''M  y.txt'',
     git_diff_name_only =
       (\<lambda>range. if range = ''origin/master...feature'' then Inr ''y.txt''
                 else Inl GitCommandError)\<rparr>"

text \<open>
  The same committed rename, followed by an edit of \<open>y.txt\<close> in the working
  tree that is not staged: the index diff is empty and the status line starts
  with a blank.
\<close>

definition repo_rename_then_touch :: repo where
  "repo_rename_then_touch = \<lparr>
     remote_refs = one_reference ''master''
       (\<lambda>k. if k = ''R'' then [\<lparr>a_path = ''x.txt'', b_path = ''y.txt''\<rparr>] else []),
     active_branch = Inr ''feature'',
     head_diff = Inr (\<lambda>k. []),
     git_status = Inr '' M y.txt'',
     git_diff_name_only =
       (\<lambda>range. if range = ''origin/master...feature'' then Inr ''y.txt''
                 else Inl GitCommandError)\<rparr>"

text \<open>
  \<open>master\<close> has \<open>x.txt\<close> and \<open>y.txt\<close>.  A commit of the branch deleted \<open>y.txt\<close>;
  then \<open>x.txt\<close> was moved to \<open>y.txt\<close> in the index.
\<close>

definition repo_move_onto_deleted :: repo where
  "repo_move_onto_deleted = \<lparr>
     remote_refs = one_reference ''master''
       (\<lambda>k. if k = ''D'' then [\<lparr>a_path = ''y.txt'', b_path = ''y.txt''\<rparr>] else []),
     active_branch = Inr ''feature'',
     head_diff = Inr
       (\<lambda>k. if k = ''R'' then [\<lparr>a_path = ''x.txt'', b_path = ''y.txt''\<rparr>] else []),
     git_status = Inr ''R  x.txt -> y.txt'',
     git_diff_name_only =
       (\<lambda>range. if range = ''origin/master...feature'' then Inr ''y.txt''
                 else Inl GitCommandError)\<rparr>"

text \<open>
  Commits of the branch renamed \<open>x.txt\<close> to \<open>y.txt\<close>, added \<open>f.txt\<close> and
  modified \<open>m.txt\<close>; then the removal of \<open>y.txt\<close>, \<open>f.txt\<close> and \<open>m.txt\<close> was
  staged.
\<close>

definition repo_staged_removal :: repo where
  "repo_staged_removal = \<lparr>
     remote_refs = one_reference ''master''
       (\<lambda>k. if k = ''R'' then [\<lparr>a_path = ''x.txt'', b_path = ''y.txt''\<rparr>]
            else if k = ''A'' then [\<lparr>a_path = ''f.txt'', b_path = ''f.txt''\<rparr>]
            else if k = ''M'' then [\<lparr>a_path = ''m.txt'', b_path = ''m.txt''\<rparr>]
            else []),
     active_branch = Inr ''feature'',
     head_diff = Inr
       (\<lambda>k. if k = ''D'' then [\<lparr>a_path = ''f.txt'', b_path = ''f.txt''\<rparr>,
                               \<lparr>a_path = ''m.txt'', b_path = ''m.txt''\<rparr>,
                               \<lparr>a_path = ''y.txt'', b_path = ''y.txt''\<rparr>]
            else []),
     git_status = Inr (''D  f.txt'' @ [CHR 0x0A] @ ''D  m.txt'' @ [CHR 0x0A] @ ''D  y.txt''),
     git_diff_name_only =
       (\<lambda>range. if range = ''origin/master...feature''
                 then Inr (''f.txt'' @ [CHR 0x0A] @ ''m.txt'' @ [CHR 0x0A] @ ''y.txt'')
                 else Inl GitCommandError)\<rparr>"




section \<open>Properties\<close>

subsection \<open>Strings and helpers\<close>

lemma split_sep_nonempty: "split_sep sep s \<noteq> []"
  by (induction s) (auto split: list.splits)


lemma replace_origin_prefix: "replace_origin (''origin/'' @ n) = replace_origin n"
  by (simp add: startswith_def)

lemma replace_origin_master: "replace_origin ''master'' = ''master''"
  by (simp add: startswith_def)

text \<open>
  The queries call one another with the reference they have already
  normalised, and the callee normalises it again.  When one pass leaves no
  \<open>origin/\<close> behind, the inner call is the call on the caller's reference.
\<close>

lemma deleted_files_stable:
  "replace_origin (replace_origin ref) = replace_origin ref \<Longrightarrow>
   deleted_files r (replace_origin ref) c s = deleted_files r ref c s"
  by (simp add: deleted_files_def)

lemma renamed_files_stable:
  "replace_origin (replace_origin ref) = replace_origin ref \<Longrightarrow>
   renamed_files r (replace_origin ref) c s = renamed_files r ref c s"
  by (simp add: renamed_files_def)

text \<open>
  One pass does not always suffice: removing the inner occurrence can bring a
  new one together, which the next call then removes.
\<close>

lemma replace_origin_two_passes:
  "replace_origin ''oriorigin/gin/x'' = ''origin/x'' \<and> replace_origin ''origin/x'' = ''x''"
  by (simp add: startswith_def)

lemmas string_defs = startswith_def strip_def split_ws_def isspace_def upper_char_def
  Path_def splitroot_def untracked_line_def

lemmas helper_defs = and_then_def one_reference_def get_all_changed_files_def
  origin_prev_ver_def get_untracked_files_def paths_of_def pairs_of_def committed_diff_def
  committed_paths_def staged_paths_def committed_pairs_def staged_pairs_def

subsection \<open>The example repositories, evaluated\<close>

lemma feature_all_changed:
  "get_all_changed_files repo_feature ''master'' =
     Inr {Path ''a.txt'', Path ''d.txt'', Path ''m.txt'', Path ''y.txt''}"
  by (auto simp: repo_feature_def string_defs helper_defs)

lemma feature_deleted:
  "deleted_files repo_feature ''master'' True False = Inr {Path ''d.txt''}"
  "deleted_files repo_feature ''master'' False True = Inr {}"
  "deleted_files repo_feature ''master'' False False = Inr {Path ''d.txt''}"
  by (auto simp: deleted_files_def repo_feature_def string_defs helper_defs)

lemma feature_renamed:
  "renamed_files repo_feature ''master'' True False = Inr {(Path ''x.txt'', Path ''y.txt'')}"
  "renamed_files repo_feature ''master'' False True = Inr {}"
  "renamed_files repo_feature ''master'' False False = Inr {(Path ''x.txt'', Path ''y.txt'')}"
  by (auto simp: renamed_files_def deleted_files_def repo_feature_def string_defs helper_defs)

lemma feature_modified:
  "modified_files repo_feature ''master'' True False = Inr {Path ''m.txt''}"
  "modified_files repo_feature ''master'' False True = Inr {Path ''b.txt''}"
  "modified_files repo_feature ''master'' False False = Inr {Path ''b.txt'', Path ''m.txt''}"
  by (auto simp: modified_files_def renamed_files_def deleted_files_def repo_feature_def
      string_defs helper_defs)

lemma feature_added:
  "added_files repo_feature ''master'' True False = Inr {Path ''a.txt''}"
  "added_files repo_feature ''master'' False True = Inr {Path ''a.txt'', Path ''c.txt''}"
  "added_files repo_feature ''master'' False False = Inr {Path ''a.txt'', Path ''c.txt''}"
  by (auto simp: added_files_def deleted_files_def repo_feature_def string_defs helper_defs)

lemma feature_committed:
  "committed_pairs repo_feature ''master'' ''R'' = Inr {(Path ''x.txt'', Path ''y.txt'')}"
  "committed_paths repo_feature ''master'' ''A'' = Inr {Path ''a.txt''}"
  "committed_paths repo_feature ''master'' ''M'' = Inr {Path ''m.txt''}"
  by (auto simp: repo_feature_def string_defs helper_defs)

lemma feature_staged:
  "staged_paths repo_feature ''M'' = Inr {Path ''a.txt'', Path ''b.txt''}"
  "staged_paths repo_feature ''A'' = Inr {}"
  "get_untracked_files repo_feature ''A'' = Inr {PathEntry (Path ''c.txt'')}"
  "get_untracked_files repo_feature ''M'' =
     Inr {PathEntry (Path ''a.txt''), PathEntry (Path ''b.txt'')}"
  by (auto simp: repo_feature_def string_defs helper_defs)

lemma drift_facts:
  "committed_paths repo_drift ''master'' ''A'' = Inr {Path ''p.txt''}"
  "get_all_changed_files repo_drift ''master'' = Inr {Path ''q.txt''}"
  "staged_paths repo_drift ''M'' = Inr {Path ''p.txt''}"
  "staged_paths repo_drift ''A'' = Inr {}"
  "get_untracked_files repo_drift ''A'' = Inr {}"
  by (auto simp: repo_drift_def string_defs helper_defs)

lemma drift_results:
  "added_files repo_drift ''master'' False False = Inr {}"
  "added_files repo_drift ''master'' False True = Inr {}"
  "modified_files repo_drift ''master'' False False = Inr {Path ''q.txt''}"
  by (auto simp: added_files_def modified_files_def renamed_files_def deleted_files_def
      repo_drift_def string_defs helper_defs)

lemma example_paths_distinct:
  "Path ''p.txt'' \<noteq> Path ''q.txt''"
  "Path ''a.txt'' \<noteq> Path ''b.txt''" "Path ''a.txt'' \<noteq> Path ''c.txt''"
  "Path ''a.txt'' \<noteq> Path ''d.txt''" "Path ''a.txt'' \<noteq> Path ''m.txt''"
  "Path ''a.txt'' \<noteq> Path ''x.txt''" "Path ''a.txt'' \<noteq> Path ''y.txt''"
  "Path ''b.txt'' \<noteq> Path ''c.txt''" "Path ''b.txt'' \<noteq> Path ''d.txt''"
  "Path ''b.txt'' \<noteq> Path ''m.txt''" "Path ''b.txt'' \<noteq> Path ''x.txt''"
  "Path ''b.txt'' \<noteq> Path ''y.txt''" "Path ''c.txt'' \<noteq> Path ''d.txt''"
  "Path ''c.txt'' \<noteq> Path ''m.txt''" "Path ''c.txt'' \<noteq> Path ''x.txt''"
  "Path ''c.txt'' \<noteq> Path ''y.txt''" "Path ''d.txt'' \<noteq> Path ''m.txt''"
  "Path ''d.txt'' \<noteq> Path ''x.txt''" "Path ''d.txt'' \<noteq> Path ''y.txt''"
  "Path ''m.txt'' \<noteq> Path ''x.txt''" "Path ''m.txt'' \<noteq> Path ''y.txt''"
  "Path ''x.txt'' \<noteq> Path ''y.txt''"
  by (simp_all add: string_defs)

lemma clean_facts:
  "remote_refs repo_clean = one_reference ''master'' (\<lambda>k. [])"
  "active_branch repo_clean = Inr ''feature''"
  "head_diff repo_clean = Inr (\<lambda>k. [])"
  "git_status repo_clean = Inr []"
  "git_diff_name_only repo_clean ''origin/master...feature'' = Inr []"
  by (simp_all add: repo_clean_def)

subsection \<open>Reference normalisation\<close>

text \<open>
  Claim C7.  For every branch name \<open>n\<close>, every query and every flag
  combination, the reference \<open>origin/n\<close> gives the same result as the reference
  \<open>n\<close>.  The name-only diff behind the relevance filter is asked for a range
  whose left end starts with \<open>origin/\<close>: the name itself when it already starts
  so, and \<open>origin/\<close> followed by the name otherwise.
\<close>

theorem prefix_normalization:
  "modified_files r (''origin/'' @ n) c s = modified_files r n c s \<and>
   added_files r (''origin/'' @ n) c s = added_files r n c s \<and>
   deleted_files r (''origin/'' @ n) c s = deleted_files r n c s \<and>
   renamed_files r (''origin/'' @ n) c s = renamed_files r n c s \<and>
   (\<exists>q. startswith q ''origin/'' \<and> (q = ''origin/'' @ p \<or> q = p) \<and>
        get_all_changed_files r p =
          and_then (active_branch r) (\<lambda>branch.
          and_then (git_diff_name_only r (q @ ''...'' @ branch)) (\<lambda>text.
            Inr (set (map Path (split_sep CHR 0x0A text))))))"
proof -
  have n: "replace_origin (''origin/'' @ n) = replace_origin n"
    by (rule replace_origin_prefix)
  have m: "modified_files r (''origin/'' @ n) c s = modified_files r n c s"
    unfolding modified_files_def n ..
  have a: "added_files r (''origin/'' @ n) c s = added_files r n c s"
    unfolding added_files_def n ..
  have d: "deleted_files r (''origin/'' @ n) c s = deleted_files r n c s"
    unfolding deleted_files_def n ..
  have rn: "renamed_files r (''origin/'' @ n) c s = renamed_files r n c s"
    unfolding renamed_files_def n ..
  have q: "\<exists>q. startswith q ''origin/'' \<and> (q = ''origin/'' @ p \<or> q = p) \<and>
        get_all_changed_files r p =
          and_then (active_branch r) (\<lambda>branch.
          and_then (git_diff_name_only r (q @ ''...'' @ branch)) (\<lambda>text.
            Inr (set (map Path (split_sep CHR 0x0A text)))))"
    by (rule exI [of _ "origin_prev_ver p"])
       (simp add: get_all_changed_files_def origin_prev_ver_def startswith_def)
  from m a d rn q show ?thesis by blast
qed

theorem prefix_normalization_witness:
  "modified_files repo_feature ''origin/master'' False False =
     modified_files repo_feature ''master'' False False \<and>
   added_files repo_feature ''origin/master'' False False =
     added_files repo_feature ''master'' False False"
  using prefix_normalization [of repo_feature "''master''" False False "''master''"]
  by simp

subsection \<open>The relevance filter set is never empty\<close>

text \<open>
  Claim C9.  A set that \<open>_get_all_changed_files\<close> returns is never empty, and
  when the name-only diff prints nothing it returns the set holding the single
  path \<open>.\<close>, since splitting the empty text gives one empty string and
  \<open>Path('')\<close> is the path \<open>.\<close>.
\<close>

theorem all_changed_files_nonempty:
  "(get_all_changed_files r prev_ver = Inr F \<longrightarrow> F \<noteq> {}) \<and>
   (active_branch r = Inr branch \<and>
    git_diff_name_only r (origin_prev_ver prev_ver @ ''...'' @ branch) = Inr []
      \<longrightarrow> get_all_changed_files r prev_ver = Inr {Path ''.''})"
  by (auto simp: get_all_changed_files_def and_then_def split_sep_nonempty Path_def
      splitroot_def startswith_def split: sum.splits)

theorem all_changed_files_nonempty_witness:
  "active_branch repo_clean = Inr ''feature'' \<and>
   git_diff_name_only repo_clean (origin_prev_ver ''master'' @ ''...'' @ ''feature'') = Inr [] \<and>
   get_all_changed_files repo_clean ''master'' = Inr {Path ''.''} \<and>
   {Path ''.''} \<noteq> {}"
  using all_changed_files_nonempty [of repo_clean "''master''" "{Path ''.''}" "''feature''"]
  by (simp add: clean_facts origin_prev_ver_def startswith_def)

subsection \<open>The branch-relevance filter\<close>

text \<open>
  Claim C6.  Write \<open>F\<close> for the set \<open>_get_all_changed_files\<close> returns for the
  normalised reference.  With \<open>committed_only\<close> the result of \<open>modified_files\<close>,
  \<open>added_files\<close> and \<open>deleted_files\<close> lies inside \<open>F\<close>, and \<open>renamed_files\<close>
  returns exactly the committed pairs whose target is in \<open>F\<close> and not in the
  deleted set the query computed.  With both flags false, whatever a query
  returns beyond its \<open>staged_only\<close> result lies inside \<open>F\<close> (and, for a pair,
  has its target outside the deleted set): a committed change whose path is
  outside \<open>F\<close> contributes to no result.
\<close>

theorem branch_relevance_filter:
  "(modified_files r ref True s = Inr M \<longrightarrow>
      (\<exists>F. get_all_changed_files r (replace_origin ref) = Inr F \<and> M \<subseteq> F)) \<and>
   (added_files r ref True s = Inr A \<longrightarrow>
      (\<exists>F. get_all_changed_files r (replace_origin ref) = Inr F \<and> A \<subseteq> F)) \<and>
   (deleted_files r ref True s = Inr D \<longrightarrow>
      (\<exists>F. get_all_changed_files r (replace_origin ref) = Inr F \<and> D \<subseteq> F)) \<and>
   (renamed_files r ref True s = Inr R \<longrightarrow>
      (\<exists>F D' C. get_all_changed_files r (replace_origin ref) = Inr F \<and>
         deleted_files r (replace_origin ref) True s = Inr D' \<and>
         committed_pairs r (replace_origin ref) ''R'' = Inr C \<and>
         R = {t \<in> C. snd t \<in> F \<and> snd t \<notin> D'})) \<and>
   (modified_files r ref False False = Inr Mu \<longrightarrow>
      (\<exists>F Ms. get_all_changed_files r (replace_origin ref) = Inr F \<and>
         modified_files r ref False True = Inr Ms \<and> Mu \<subseteq> F \<union> Ms)) \<and>
   (added_files r ref False False = Inr Au \<longrightarrow>
      (\<exists>F As. get_all_changed_files r (replace_origin ref) = Inr F \<and>
         added_files r ref False True = Inr As \<and> Au \<subseteq> F \<union> As)) \<and>
   (deleted_files r ref False False = Inr Du \<longrightarrow>
      (\<exists>F Ds. get_all_changed_files r (replace_origin ref) = Inr F \<and>
         deleted_files r ref False True = Inr Ds \<and> Du \<subseteq> F \<union> Ds)) \<and>
   (renamed_files r ref False False = Inr Ru \<longrightarrow>
      (\<exists>F Rs D'. get_all_changed_files r (replace_origin ref) = Inr F \<and>
         renamed_files r ref False True = Inr Rs \<and>
         deleted_files r (replace_origin ref) False False = Inr D' \<and>
         Ru - Rs \<subseteq> {t. snd t \<in> F \<and> snd t \<notin> D'}))"
proof -
  have 1: "modified_files r ref True s = Inr M \<longrightarrow>
      (\<exists>F. get_all_changed_files r (replace_origin ref) = Inr F \<and> M \<subseteq> F)"
    by (auto simp: modified_files_def and_then_def Let_def split: sum.splits)
  have 2: "added_files r ref True s = Inr A \<longrightarrow>
      (\<exists>F. get_all_changed_files r (replace_origin ref) = Inr F \<and> A \<subseteq> F)"
    by (auto simp: added_files_def and_then_def Let_def split: sum.splits)
  have 3: "deleted_files r ref True s = Inr D \<longrightarrow>
      (\<exists>F. get_all_changed_files r (replace_origin ref) = Inr F \<and> D \<subseteq> F)"
    by (auto simp: deleted_files_def and_then_def Let_def split: sum.splits)
  have 4: "renamed_files r ref True s = Inr R \<longrightarrow>
      (\<exists>F D' C. get_all_changed_files r (replace_origin ref) = Inr F \<and>
         deleted_files r (replace_origin ref) True s = Inr D' \<and>
         committed_pairs r (replace_origin ref) ''R'' = Inr C \<and>
         R = {t \<in> C. snd t \<in> F \<and> snd t \<notin> D'})"
    by (auto simp: renamed_files_def and_then_def Let_def split: sum.splits)
  have 5: "modified_files r ref False False = Inr Mu \<longrightarrow>
      (\<exists>F Ms. get_all_changed_files r (replace_origin ref) = Inr F \<and>
         modified_files r ref False True = Inr Ms \<and> Mu \<subseteq> F \<union> Ms)"
    by (auto simp: modified_files_def renamed_files_def deleted_files_def and_then_def
        Let_def split: sum.splits)
  have 6: "added_files r ref False False = Inr Au \<longrightarrow>
      (\<exists>F As. get_all_changed_files r (replace_origin ref) = Inr F \<and>
         added_files r ref False True = Inr As \<and> Au \<subseteq> F \<union> As)"
    by (auto simp: added_files_def deleted_files_def and_then_def Let_def split: sum.splits)
  have 7: "deleted_files r ref False False = Inr Du \<longrightarrow>
      (\<exists>F Ds. get_all_changed_files r (replace_origin ref) = Inr F \<and>
         deleted_files r ref False True = Inr Ds \<and> Du \<subseteq> F \<union> Ds)"
    by (auto simp: deleted_files_def and_then_def Let_def split: sum.splits)
  have 8: "renamed_files r ref False False = Inr Ru \<longrightarrow>
      (\<exists>F Rs D'. get_all_changed_files r (replace_origin ref) = Inr F \<and>
         renamed_files r ref False True = Inr Rs \<and>
         deleted_files r (replace_origin ref) False False = Inr D' \<and>
         Ru - Rs \<subseteq> {t. snd t \<in> F \<and> snd t \<notin> D'})"
    by (auto simp: renamed_files_def deleted_files_def and_then_def Let_def
        split: sum.splits)
  from 1 2 3 4 5 6 7 8 show ?thesis by blast
qed

theorem branch_relevance_filter_witness:
  "get_all_changed_files repo_feature ''master'' =
     Inr {Path ''a.txt'', Path ''d.txt'', Path ''m.txt'', Path ''y.txt''} \<and>
   modified_files repo_feature ''master'' True False = Inr {Path ''m.txt''} \<and>
   {Path ''m.txt''} \<subseteq> {Path ''a.txt'', Path ''d.txt'', Path ''m.txt'', Path ''y.txt''} \<and>
   added_files repo_feature ''master'' True False = Inr {Path ''a.txt''} \<and>
   {Path ''a.txt''} \<subseteq> {Path ''a.txt'', Path ''d.txt'', Path ''m.txt'', Path ''y.txt''} \<and>
   deleted_files repo_feature ''master'' True False = Inr {Path ''d.txt''} \<and>
   {Path ''d.txt''} \<subseteq> {Path ''a.txt'', Path ''d.txt'', Path ''m.txt'', Path ''y.txt''} \<and>
   renamed_files repo_feature ''master'' True False = Inr {(Path ''x.txt'', Path ''y.txt'')} \<and>
   modified_files repo_feature ''master'' False False = Inr {Path ''b.txt'', Path ''m.txt''} \<and>
   added_files repo_feature ''master'' False False = Inr {Path ''a.txt'', Path ''c.txt''} \<and>
   deleted_files repo_feature ''master'' False False = Inr {Path ''d.txt''} \<and>
   renamed_files repo_feature ''master'' False False = Inr {(Path ''x.txt'', Path ''y.txt'')} \<and>
   {Path ''b.txt'', Path ''m.txt''}
     \<subseteq> {Path ''a.txt'', Path ''d.txt'', Path ''m.txt'', Path ''y.txt''} \<union> {Path ''b.txt''}"
  using branch_relevance_filter [of repo_feature "''master''" False "{Path ''m.txt''}"
      "{Path ''a.txt''}" "{Path ''d.txt''}" "{(Path ''x.txt'', Path ''y.txt'')}"
      "{Path ''b.txt'', Path ''m.txt''}" "{Path ''a.txt'', Path ''c.txt''}" "{Path ''d.txt''}"
      "{(Path ''x.txt'', Path ''y.txt'')}"]
  by (simp add: feature_modified feature_added feature_deleted feature_renamed
      feature_all_changed replace_origin_master)

subsection \<open>Added upstream of the branch, then edited locally\<close>

lemma quoted_status_facts:
  "committed_paths repo_quoted_status ''master'' ''A'' = Inr {Path (''x.txt'' @ [CHR 0x22])}"
  "get_all_changed_files repo_quoted_status ''master'' = Inr {Path ''q.txt''}"
  "staged_paths repo_quoted_status ''M'' = Inr {Path (''x.txt'' @ [CHR 0x22])}"
  "get_untracked_files repo_quoted_status ''A'' =
     Inr {PathEntry (Path (''x.txt'' @ [CHR 0x22]))}"
  by (auto simp: repo_quoted_status_def string_defs helper_defs)

lemma quoted_status_added:
  "added_files repo_quoted_status ''master'' False False = Inr {Path (''x.txt'' @ [CHR 0x22])}"
  "added_files repo_quoted_status ''master'' False True = Inr {Path (''x.txt'' @ [CHR 0x22])}"
  by (auto simp: added_files_def deleted_files_def repo_quoted_status_def string_defs
      helper_defs)

text \<open>
  Claim C10, as stated, fails: \<open>added_files\<close> returns every path that the
  status text yields as added, whatever the committed diff and the index diff
  say of it.  The file \<open>x.txt"\<close> is added in the committed diff, outside the
  relevance filter set and modified in the index; the status line of the
  untracked file \<open>a x.txt\<close>, which git prints as \<open>?? "a x.txt"\<close>, has
  \<open>x.txt"\<close> for its last token, and \<open>added_files\<close> returns that path with both
  flags false and with \<open>staged_only\<close>.
\<close>

theorem quoted_name_reported_added:
  "committed_paths repo_quoted_status ''master'' ''A'' = Inr {Path (''x.txt'' @ [CHR 0x22])} \<and>
   get_all_changed_files repo_quoted_status ''master'' = Inr {Path ''q.txt''} \<and>
   Path (''x.txt'' @ [CHR 0x22]) \<noteq> Path ''q.txt'' \<and>
   staged_paths repo_quoted_status ''M'' = Inr {Path (''x.txt'' @ [CHR 0x22])} \<and>
   added_files repo_quoted_status ''master'' False False = Inr {Path (''x.txt'' @ [CHR 0x22])} \<and>
   added_files repo_quoted_status ''master'' False True = Inr {Path (''x.txt'' @ [CHR 0x22])}"
  by (simp add: quoted_status_facts quoted_status_added) (simp add: string_defs)

text \<open>
  Claim C10, amended.  Take a path that the committed diff of the reference
  against the branch tip lists as added, that is outside the relevance filter
  set, that the index diff lists as modified, and that neither the index diff
  nor the status text yields as added.  Then, in every flag mode, the path is
  neither in the result of \<open>modified_files\<close>, which subtracts the unfiltered
  committed-added set from its staged set, nor in the result of
  \<open>added_files\<close>, which adds to its staged set only from the filtered one.
\<close>

theorem not_relevant_added_then_modified:
  assumes "committed_paths r (replace_origin ref) ''A'' = Inr CA" and "p \<in> CA"
    and "get_all_changed_files r (replace_origin ref) = Inr F" and "p \<notin> F"
    and "staged_paths r ''M'' = Inr SM" and "p \<in> SM"
    and "staged_paths r ''A'' = Inr SA" and "p \<notin> SA"
    and "\<And>u. get_untracked_files r ''A'' = Inr u \<Longrightarrow> p \<notin> paths_of u"
  shows "(modified_files r ref c s = Inr M \<longrightarrow> p \<notin> M) \<and>
         (added_files r ref c s = Inr A \<longrightarrow> p \<notin> A)"
  using assms
  by (auto simp: modified_files_def added_files_def and_then_def Let_def
      split: sum.splits if_splits)

theorem not_relevant_added_then_modified_witness:
  "committed_paths repo_drift ''master'' ''A'' = Inr {Path ''p.txt''} \<and>
   get_all_changed_files repo_drift ''master'' = Inr {Path ''q.txt''} \<and>
   Path ''p.txt'' \<notin> {Path ''q.txt''} \<and>
   staged_paths repo_drift ''M'' = Inr {Path ''p.txt''} \<and>
   staged_paths repo_drift ''A'' = Inr {} \<and>
   get_untracked_files repo_drift ''A'' = Inr {} \<and>
   modified_files repo_drift ''master'' False False = Inr {Path ''q.txt''} \<and>
   added_files repo_drift ''master'' False False = Inr {}"
  using not_relevant_added_then_modified [of repo_drift "''master''" "{Path ''p.txt''}"
      "Path ''p.txt''" "{Path ''q.txt''}" "{Path ''p.txt''}" "{}" False False
      "{Path ''q.txt''}" "{}"]
  by (simp add: drift_facts drift_results replace_origin_master example_paths_distinct
      paths_of_def)

lemma rename_then_edit_results:
  "renamed_files repo_rename_then_edit ''master'' False False =
     Inr {(Path ''x.txt'', Path ''y.txt'')}"
  "modified_files repo_rename_then_edit ''master'' False False = Inr {Path ''y.txt''}"
  by (auto simp: modified_files_def renamed_files_def deleted_files_def
      repo_rename_then_edit_def string_defs helper_defs)

lemma rename_then_touch_results:
  "renamed_files repo_rename_then_touch ''master'' False False =
     Inr {(Path ''x.txt'', Path ''y.txt'')}"
  "modified_files repo_rename_then_touch ''master'' False False = Inr {Path ''y.txt''}"
  by (auto simp: modified_files_def renamed_files_def deleted_files_def
      repo_rename_then_touch_def string_defs helper_defs)

lemma move_onto_deleted_results:
  "deleted_files repo_move_onto_deleted ''master'' False False = Inr {Path ''y.txt''}"
  "renamed_files repo_move_onto_deleted ''master'' False False =
     Inr {(Path ''x.txt'', Path ''y.txt''), (Path ''->'', Path ''y.txt'')}"
  "renamed_files repo_move_onto_deleted ''master'' False True =
     Inr {(Path ''x.txt'', Path ''y.txt''), (Path ''->'', Path ''y.txt'')}"
  by (auto simp: renamed_files_def deleted_files_def
      repo_move_onto_deleted_def string_defs helper_defs)

subsection \<open>Renamed files\<close>

text \<open>
  Claim C1, as stated, fails: \<open>modified_files\<close> removes \<open>item[0]\<close> of every
  renamed pair, the old path, and \<open>added_files\<close> and \<open>deleted_files\<close> do not
  look at the renamed pairs.  After a committed rename of \<open>x.txt\<close> to \<open>y.txt\<close>
  and a staged edit of \<open>y.txt\<close>, the path \<open>y.txt\<close> is the target of a returned
  pair and is returned by \<open>modified_files\<close> as well.
\<close>

theorem rename_target_reported_modified:
  "renamed_files repo_rename_then_edit ''master'' False False =
     Inr {(Path ''x.txt'', Path ''y.txt'')} \<and>
   modified_files repo_rename_then_edit ''master'' False False = Inr {Path ''y.txt''}"
  by (simp add: rename_then_edit_results)

text \<open>
  Claim C1, amended.  For a reference that one pass of the normalisation
  clears of \<open>origin/\<close>, and for every flag combination: the old path of every
  pair \<open>renamed_files\<close> returns is not in the result of \<open>modified_files\<close>; and
  with \<open>committed_only\<close> the target of every returned pair is not in the result
  of \<open>deleted_files\<close>.
\<close>

theorem rename_source_not_modified:
  assumes "replace_origin (replace_origin ref) = replace_origin ref"
  shows "(modified_files r ref c s = Inr M \<and> renamed_files r ref c s = Inr R \<longrightarrow>
            fst ` R \<inter> M = {}) \<and>
         (renamed_files r ref True s = Inr R' \<and> deleted_files r ref True s = Inr D \<longrightarrow>
            snd ` R' \<inter> D = {})"
proof -
  have 1: "modified_files r ref c s = Inr M \<and> renamed_files r ref c s = Inr R \<longrightarrow>
            fst ` R \<inter> M = {}"
    using assms
    by (auto simp: modified_files_def renamed_files_stable and_then_def Let_def
        split: sum.splits if_splits)
  have 2: "renamed_files r ref True s = Inr R' \<and> deleted_files r ref True s = Inr D \<longrightarrow>
            snd ` R' \<inter> D = {}"
    using assms
    by (auto simp: renamed_files_def deleted_files_stable and_then_def Let_def split: sum.splits)
  from 1 2 show ?thesis by blast
qed

theorem rename_source_not_modified_witness:
  "replace_origin (replace_origin ''master'') = replace_origin ''master'' \<and>
   modified_files repo_feature ''master'' False False = Inr {Path ''b.txt'', Path ''m.txt''} \<and>
   renamed_files repo_feature ''master'' False False = Inr {(Path ''x.txt'', Path ''y.txt'')} \<and>
   fst ` {(Path ''x.txt'', Path ''y.txt'')} \<inter> {Path ''b.txt'', Path ''m.txt''} = {} \<and>
   renamed_files repo_feature ''master'' True False = Inr {(Path ''x.txt'', Path ''y.txt'')} \<and>
   deleted_files repo_feature ''master'' True False = Inr {Path ''d.txt''} \<and>
   snd ` {(Path ''x.txt'', Path ''y.txt'')} \<inter> {Path ''d.txt''} = {}"
  using rename_source_not_modified [of "''master''" repo_feature False False
      "{Path ''b.txt'', Path ''m.txt''}" "{(Path ''x.txt'', Path ''y.txt'')}"
      "{(Path ''x.txt'', Path ''y.txt'')}" "{Path ''d.txt''}"]
  by (simp add: feature_modified feature_renamed feature_deleted replace_origin_master
      startswith_def)

subsection \<open>Deleted files\<close>

text \<open>
  Claim C4, as stated, fails for the pairs that come from the index and the
  status text: \<open>renamed_files\<close> checks only the committed pairs against the
  deleted set.  When a commit of the branch deleted \<open>y.txt\<close> and \<open>x.txt\<close> is
  then moved to \<open>y.txt\<close> in the index, \<open>y.txt\<close> is returned by \<open>deleted_files\<close>
  and is the target of returned pairs.
\<close>

theorem deleted_path_is_rename_target:
  "deleted_files repo_move_onto_deleted ''master'' False False = Inr {Path ''y.txt''} \<and>
   renamed_files repo_move_onto_deleted ''master'' False False =
     Inr {(Path ''x.txt'', Path ''y.txt''), (Path ''->'', Path ''y.txt'')}"
  by (simp add: move_onto_deleted_results)

text \<open>
  Claim C4, amended.  For a reference that one pass of the normalisation
  clears of \<open>origin/\<close>, and for every flag combination: a path in the result of
  \<open>deleted_files\<close> is not in the result of \<open>modified_files\<close>, and it is the
  target of a pair in the result of \<open>renamed_files\<close> only when \<open>committed_only\<close>
  is false and the pair is one that the \<open>staged_only\<close> query returns too (a
  pair from the index diff or the status text); it is never the target of a
  committed pair that is kept.
\<close>

theorem deleted_not_modified:
  assumes "replace_origin (replace_origin ref) = replace_origin ref"
    and "deleted_files r ref c s = Inr D"
  shows "(modified_files r ref c s = Inr M \<longrightarrow> M \<inter> D = {}) \<and>
         (renamed_files r ref c s = Inr R \<and> (a, b) \<in> R \<and> b \<in> D \<longrightarrow>
            \<not> c \<and> (\<exists>Rs. renamed_files r ref False True = Inr Rs \<and> (a, b) \<in> Rs))"
proof -
  have 1: "modified_files r ref c s = Inr M \<longrightarrow> M \<inter> D = {}"
    using assms
    by (auto simp: modified_files_def deleted_files_stable and_then_def Let_def
        split: sum.splits if_splits)
  have 2: "renamed_files r ref c s = Inr R \<and> (a, b) \<in> R \<and> b \<in> D \<longrightarrow>
            \<not> c \<and> (\<exists>Rs. renamed_files r ref False True = Inr Rs \<and> (a, b) \<in> Rs)"
    using assms
    by (auto simp: renamed_files_def deleted_files_stable deleted_files_def and_then_def Let_def
        split: sum.splits if_splits)
  from 1 2 show ?thesis by blast
qed

theorem deleted_not_modified_witness:
  "replace_origin (replace_origin ''master'') = replace_origin ''master'' \<and>
   deleted_files repo_feature ''master'' False False = Inr {Path ''d.txt''} \<and>
   modified_files repo_feature ''master'' False False = Inr {Path ''b.txt'', Path ''m.txt''} \<and>
   {Path ''b.txt'', Path ''m.txt''} \<inter> {Path ''d.txt''} = {} \<and>
   deleted_files repo_move_onto_deleted ''master'' False False = Inr {Path ''y.txt''} \<and>
   renamed_files repo_move_onto_deleted ''master'' False False =
     Inr {(Path ''x.txt'', Path ''y.txt''), (Path ''->'', Path ''y.txt'')} \<and>
   (\<exists>Rs. renamed_files repo_move_onto_deleted ''master'' False True = Inr Rs \<and>
         (Path ''x.txt'', Path ''y.txt'') \<in> Rs)"
  using deleted_not_modified [of "''master''" repo_feature False False "{Path ''d.txt''}"
      "{Path ''b.txt'', Path ''m.txt''}"]
    deleted_not_modified [of "''master''" repo_move_onto_deleted False False "{Path ''y.txt''}"
      "{}" "{(Path ''x.txt'', Path ''y.txt''), (Path ''->'', Path ''y.txt'')}"
      "Path ''x.txt''" "Path ''y.txt''"]
  by (simp add: feature_modified feature_deleted move_onto_deleted_results
      replace_origin_master startswith_def)

subsection \<open>One status for a path\<close>

text \<open>
  Claim C5, as stated, fails: the results are not pairwise disjoint on paths.
  After a committed rename of \<open>x.txt\<close> to \<open>y.txt\<close> and an edit of \<open>y.txt\<close> in
  the working tree, \<open>y.txt\<close> is in a pair of \<open>renamed_files\<close> and in the result
  of \<open>modified_files\<close>.
\<close>

theorem renamed_and_modified_overlap:
  "renamed_files repo_rename_then_touch ''master'' False False =
     Inr {(Path ''x.txt'', Path ''y.txt'')} \<and>
   modified_files repo_rename_then_touch ''master'' False False = Inr {Path ''y.txt''}"
  by (simp add: rename_then_touch_results)

text \<open>
  Claim C5, amended.  For a reference that one pass of the normalisation
  clears of \<open>origin/\<close>, and for every flag combination: the result of
  \<open>deleted_files\<close> is disjoint from those of \<open>added_files\<close> and of
  \<open>modified_files\<close>, and the result of \<open>modified_files\<close> is disjoint from the old
  paths of the pairs of \<open>renamed_files\<close>.  The results of \<open>added_files\<close> and
  \<open>modified_files\<close> are disjoint when the diffs give a path one kind: no path is
  both added and modified in the committed diff, and no path that the index
  diff or the status text reports as added is reported as modified by the
  index diff, the status text or the committed diff.
\<close>

theorem reported_status_disjoint:
  assumes "replace_origin (replace_origin ref) = replace_origin ref"
    and "added_files r ref c s = Inr A" and "modified_files r ref c s = Inr M"
    and "deleted_files r ref c s = Inr D" and "renamed_files r ref c s = Inr R"
  shows "A \<inter> D = {} \<and> M \<inter> D = {} \<and> fst ` R \<inter> M = {} \<and>
         (committed_paths r (replace_origin ref) ''A'' = Inr ca \<and>
          committed_paths r (replace_origin ref) ''M'' = Inr cm \<and> ca \<inter> cm = {} \<and>
          (\<not> c \<longrightarrow> get_untracked_files r ''A'' = Inr ua \<and>
                  get_untracked_files r ''M'' = Inr um \<and>
                  staged_paths r ''A'' = Inr sa \<and> staged_paths r ''M'' = Inr sm \<and>
                  (sa \<union> paths_of ua) \<inter> (sm \<union> paths_of um \<union> cm) = {})
          \<longrightarrow> A \<inter> M = {})"
proof -
  have 1: "A \<inter> D = {}"
    using assms
    by (auto simp: added_files_def deleted_files_stable and_then_def Let_def split: sum.splits if_splits)
  have 2: "M \<inter> D = {}"
    using assms
    by (auto simp: modified_files_def deleted_files_stable and_then_def Let_def
        split: sum.splits if_splits)
  have 3: "fst ` R \<inter> M = {}"
    using assms
    by (auto simp: modified_files_def renamed_files_stable and_then_def Let_def
        split: sum.splits if_splits)
  have 4: "committed_paths r (replace_origin ref) ''A'' = Inr ca \<and>
          committed_paths r (replace_origin ref) ''M'' = Inr cm \<and> ca \<inter> cm = {} \<and>
          (\<not> c \<longrightarrow> get_untracked_files r ''A'' = Inr ua \<and>
                  get_untracked_files r ''M'' = Inr um \<and>
                  staged_paths r ''A'' = Inr sa \<and> staged_paths r ''M'' = Inr sm \<and>
                  (sa \<union> paths_of ua) \<inter> (sm \<union> paths_of um \<union> cm) = {})
          \<longrightarrow> A \<inter> M = {}"
    using assms(2,3)
    by (auto simp: added_files_def modified_files_def and_then_def Let_def split: sum.splits if_splits)
  from 1 2 3 4 show ?thesis by blast
qed

theorem reported_status_disjoint_witness:
  "replace_origin (replace_origin ''master'') = replace_origin ''master'' \<and>
   added_files repo_feature ''master'' False False = Inr {Path ''a.txt'', Path ''c.txt''} \<and>
   modified_files repo_feature ''master'' False False = Inr {Path ''b.txt'', Path ''m.txt''} \<and>
   deleted_files repo_feature ''master'' False False = Inr {Path ''d.txt''} \<and>
   renamed_files repo_feature ''master'' False False = Inr {(Path ''x.txt'', Path ''y.txt'')} \<and>
   committed_paths repo_feature ''master'' ''A'' = Inr {Path ''a.txt''} \<and>
   committed_paths repo_feature ''master'' ''M'' = Inr {Path ''m.txt''} \<and>
   get_untracked_files repo_feature ''A'' = Inr {PathEntry (Path ''c.txt'')} \<and>
   get_untracked_files repo_feature ''M'' =
     Inr {PathEntry (Path ''a.txt''), PathEntry (Path ''b.txt'')} \<and>
   staged_paths repo_feature ''A'' = Inr {} \<and>
   staged_paths repo_feature ''M'' = Inr {Path ''a.txt'', Path ''b.txt''} \<and>
   {Path ''a.txt'', Path ''c.txt''} \<inter> {Path ''b.txt'', Path ''m.txt''} = {} \<and>
   {Path ''a.txt'', Path ''c.txt''} \<inter> {Path ''d.txt''} = {}"
  using reported_status_disjoint [of "''master''" repo_feature False False
      "{Path ''a.txt'', Path ''c.txt''}" "{Path ''b.txt'', Path ''m.txt''}" "{Path ''d.txt''}"
      "{(Path ''x.txt'', Path ''y.txt'')}" "{Path ''a.txt''}" "{Path ''m.txt''}"
      "{PathEntry (Path ''c.txt'')}" "{PathEntry (Path ''a.txt''), PathEntry (Path ''b.txt'')}"
      "{}" "{Path ''a.txt'', Path ''b.txt''}"]
  by (simp add: feature_added feature_modified feature_deleted feature_renamed
      feature_committed feature_staged replace_origin_master startswith_def paths_of_def
      example_paths_distinct)

subsection \<open>The three flag modes\<close>

lemma staged_removal_results:
  "renamed_files repo_staged_removal ''master'' True False =
     Inr {(Path ''x.txt'', Path ''y.txt'')}"
  "renamed_files repo_staged_removal ''master'' False False = Inr {}"
  "added_files repo_staged_removal ''master'' True False = Inr {Path ''f.txt''}"
  "added_files repo_staged_removal ''master'' False False = Inr {}"
  "modified_files repo_staged_removal ''master'' True False = Inr {Path ''m.txt''}"
  "modified_files repo_staged_removal ''master'' False False = Inr {}"
  by (auto simp: modified_files_def added_files_def renamed_files_def deleted_files_def
      repo_staged_removal_def string_defs helper_defs)

text \<open>
  Claim C2, as stated, fails for three of the four queries: each mode computes
  its own deleted set, and the deleted set of the unrestricted mode holds the
  staged deletions, which the \<open>committed_only\<close> mode does not see.  When the
  branch committed a rename, an added file and a modified file and their
  removal is then staged, each is in the \<open>committed_only\<close> result and not in
  the unrestricted one.
\<close>

theorem committed_only_not_subset:
  "renamed_files repo_staged_removal ''master'' True False =
     Inr {(Path ''x.txt'', Path ''y.txt'')} \<and>
   renamed_files repo_staged_removal ''master'' False False = Inr {} \<and>
   added_files repo_staged_removal ''master'' True False = Inr {Path ''f.txt''} \<and>
   added_files repo_staged_removal ''master'' False False = Inr {} \<and>
   modified_files repo_staged_removal ''master'' True False = Inr {Path ''m.txt''} \<and>
   modified_files repo_staged_removal ''master'' False False = Inr {}"
  by (simp add: staged_removal_results)

text \<open>
  Claim C2, amended.  For a reference that one pass of the normalisation
  clears of \<open>origin/\<close>, write \<open>Du\<close> for the unrestricted result of
  \<open>deleted_files\<close>.  For \<open>deleted_files\<close> the claim holds as stated.  For
  \<open>added_files\<close> the unrestricted result is the union of the \<open>committed_only\<close>
  and \<open>staged_only\<close> results without the paths of \<open>Du\<close>.  For \<open>renamed_files\<close>
  the unrestricted result is the \<open>staged_only\<close> result together with the
  \<open>committed_only\<close> pairs whose target is not in \<open>Du\<close>.  For \<open>modified_files\<close>
  every path of the \<open>committed_only\<close> and \<open>staged_only\<close> results that is neither
  in \<open>Du\<close> nor the old path of an unrestricted renamed pair is in the
  unrestricted result.
\<close>

theorem mode_decomposition:
  assumes "replace_origin (replace_origin ref) = replace_origin ref"
    and "deleted_files r ref False False = Inr Du"
  shows "(deleted_files r ref True False = Inr Dc \<and> deleted_files r ref False True = Inr Ds
            \<longrightarrow> Dc \<subseteq> Du \<and> Ds \<subseteq> Du \<and> Du = Dc \<union> Ds) \<and>
         (added_files r ref True False = Inr Ac \<and> added_files r ref False True = Inr As \<and>
          added_files r ref False False = Inr Au
            \<longrightarrow> Au = (Ac \<union> As) - Du) \<and>
         (renamed_files r ref True False = Inr Rc \<and> renamed_files r ref False True = Inr Rs \<and>
          renamed_files r ref False False = Inr Ru
            \<longrightarrow> Rs \<subseteq> Ru \<and> Ru = Rs \<union> {t \<in> Rc. snd t \<notin> Du}) \<and>
         (modified_files r ref True False = Inr Mc \<and> modified_files r ref False True = Inr Ms \<and>
          modified_files r ref False False = Inr Mu \<and>
          renamed_files r ref False False = Inr Ru'
            \<longrightarrow> (Mc \<union> Ms) - fst ` Ru' - Du \<subseteq> Mu)"
proof -
  note st = assms(1)
  have 1: "deleted_files r ref True False = Inr Dc \<and> deleted_files r ref False True = Inr Ds
            \<longrightarrow> Dc \<subseteq> Du \<and> Ds \<subseteq> Du \<and> Du = Dc \<union> Ds"
    using assms(2) by (auto simp: deleted_files_def and_then_def Let_def split: sum.splits)
  have 2: "added_files r ref True False = Inr Ac \<and> added_files r ref False True = Inr As \<and>
          added_files r ref False False = Inr Au
            \<longrightarrow> Au = (Ac \<union> As) - Du"
    using assms(2)
    by (auto simp: added_files_def deleted_files_def st and_then_def Let_def split: sum.splits)
  have 3: "renamed_files r ref True False = Inr Rc \<and> renamed_files r ref False True = Inr Rs \<and>
          renamed_files r ref False False = Inr Ru
            \<longrightarrow> Rs \<subseteq> Ru \<and> Ru = Rs \<union> {t \<in> Rc. snd t \<notin> Du}"
    using assms(2)
    by (auto simp: renamed_files_def deleted_files_def st and_then_def Let_def split: sum.splits)
  have 4: "modified_files r ref True False = Inr Mc \<and> modified_files r ref False True = Inr Ms \<and>
          modified_files r ref False False = Inr Mu \<and>
          renamed_files r ref False False = Inr Ru'
            \<longrightarrow> (Mc \<union> Ms) - fst ` Ru' - Du \<subseteq> Mu"
    using assms(2)
    by (auto simp: modified_files_def renamed_files_stable [OF st]
        deleted_files_stable [OF st] and_then_def Let_def split: sum.splits)
  from 1 2 3 4 show ?thesis by blast
qed

theorem mode_decomposition_witness:
  "replace_origin (replace_origin ''master'') = replace_origin ''master'' \<and>
   deleted_files repo_feature ''master'' False False = Inr {Path ''d.txt''} \<and>
   deleted_files repo_feature ''master'' True False = Inr {Path ''d.txt''} \<and>
   deleted_files repo_feature ''master'' False True = Inr {} \<and>
   {Path ''d.txt''} = {Path ''d.txt''} \<union> {} \<and>
   added_files repo_feature ''master'' True False = Inr {Path ''a.txt''} \<and>
   added_files repo_feature ''master'' False True = Inr {Path ''a.txt'', Path ''c.txt''} \<and>
   added_files repo_feature ''master'' False False = Inr {Path ''a.txt'', Path ''c.txt''} \<and>
   {Path ''a.txt'', Path ''c.txt''} =
     ({Path ''a.txt''} \<union> {Path ''a.txt'', Path ''c.txt''}) - {Path ''d.txt''} \<and>
   renamed_files repo_feature ''master'' True False = Inr {(Path ''x.txt'', Path ''y.txt'')} \<and>
   renamed_files repo_feature ''master'' False True = Inr {} \<and>
   renamed_files repo_feature ''master'' False False = Inr {(Path ''x.txt'', Path ''y.txt'')} \<and>
   modified_files repo_feature ''master'' True False = Inr {Path ''m.txt''} \<and>
   modified_files repo_feature ''master'' False True = Inr {Path ''b.txt''} \<and>
   modified_files repo_feature ''master'' False False = Inr {Path ''b.txt'', Path ''m.txt''} \<and>
   ({Path ''m.txt''} \<union> {Path ''b.txt''}) - fst ` {(Path ''x.txt'', Path ''y.txt'')}
       - {Path ''d.txt''}
     \<subseteq> {Path ''b.txt'', Path ''m.txt''}"
  using mode_decomposition [of "''master''" repo_feature "{Path ''d.txt''}"
      "{Path ''d.txt''}" "{}" "{Path ''a.txt''}" "{Path ''a.txt'', Path ''c.txt''}"
      "{Path ''a.txt'', Path ''c.txt''}" "{(Path ''x.txt'', Path ''y.txt'')}" "{}"
      "{(Path ''x.txt'', Path ''y.txt'')}" "{Path ''m.txt''}" "{Path ''b.txt''}"
      "{Path ''b.txt'', Path ''m.txt''}" "{(Path ''x.txt'', Path ''y.txt'')}"]
  by (auto simp: feature_added feature_modified feature_deleted feature_renamed
      replace_origin_master startswith_def example_paths_distinct)

subsection \<open>Added relative to the reference, then edited locally\<close>

text \<open>
  Claim C3, as stated, fails: \<open>added_files\<close> takes the locally modified paths
  only from the committed-added set that passed the relevance filter.  When
  \<open>p.txt\<close> is added in the diff of the reference against the branch tip
  without having been touched on the branch, and an edit of it is staged,
  \<open>added_files\<close> does not return it, with both flags false and with
  \<open>staged_only\<close>.
\<close>

theorem added_then_modified_not_reported:
  "committed_paths repo_drift ''master'' ''A'' = Inr {Path ''p.txt''} \<and>
   get_all_changed_files repo_drift ''master'' = Inr {Path ''q.txt''} \<and>
   staged_paths repo_drift ''M'' = Inr {Path ''p.txt''} \<and>
   added_files repo_drift ''master'' False False = Inr {} \<and>
   added_files repo_drift ''master'' False True = Inr {}"
  by (simp add: drift_facts drift_results)

text \<open>
  Claim C3, amended.  For a reference that one pass of the normalisation
  clears of \<open>origin/\<close>, take a path that the committed diff of the reference
  against the branch tip lists as added and the index diff lists as modified.
  With \<open>staged_only\<close> the path is not in the result of \<open>modified_files\<close>; with
  both flags false it is not in that result provided the committed diff does
  not list it as modified as well; and in both modes it is in the result of
  \<open>added_files\<close> provided it is in the relevance filter set and not in the
  result of \<open>deleted_files\<close>.
\<close>

theorem added_then_locally_modified:
  assumes "replace_origin (replace_origin ref) = replace_origin ref"
    and "committed_paths r (replace_origin ref) ''A'' = Inr CA" and "p \<in> CA"
    and "staged_paths r ''M'' = Inr SM" and "p \<in> SM"
  shows "(modified_files r ref False True = Inr Ms \<longrightarrow> p \<notin> Ms) \<and>
         (modified_files r ref False False = Inr Mu \<and>
          committed_paths r (replace_origin ref) ''M'' = Inr CM \<and> p \<notin> CM
            \<longrightarrow> p \<notin> Mu) \<and>
         (added_files r ref False s = Inr A \<and> deleted_files r ref False s = Inr D \<and>
          get_all_changed_files r (replace_origin ref) = Inr F \<and> p \<in> F \<and> p \<notin> D
            \<longrightarrow> p \<in> A)"
proof -
  note st = assms(1)
  have 1: "modified_files r ref False True = Inr Ms \<longrightarrow> p \<notin> Ms"
    using assms(2-) by (auto simp: modified_files_def and_then_def Let_def split: sum.splits)
  have 2: "modified_files r ref False False = Inr Mu \<and>
          committed_paths r (replace_origin ref) ''M'' = Inr CM \<and> p \<notin> CM
            \<longrightarrow> p \<notin> Mu"
    using assms(2-) by (auto simp: modified_files_def and_then_def Let_def split: sum.splits)
  have 3: "added_files r ref False s = Inr A \<and> deleted_files r ref False s = Inr D \<and>
          get_all_changed_files r (replace_origin ref) = Inr F \<and> p \<in> F \<and> p \<notin> D
            \<longrightarrow> p \<in> A"
    using assms(2-)
    by (auto simp: added_files_def deleted_files_stable [OF st] and_then_def Let_def
        split: sum.splits if_splits)
  from 1 2 3 show ?thesis by blast
qed

theorem added_then_locally_modified_witness:
  "replace_origin (replace_origin ''master'') = replace_origin ''master'' \<and>
   committed_paths repo_feature ''master'' ''A'' = Inr {Path ''a.txt''} \<and>
   staged_paths repo_feature ''M'' = Inr {Path ''a.txt'', Path ''b.txt''} \<and>
   modified_files repo_feature ''master'' False True = Inr {Path ''b.txt''} \<and>
   Path ''a.txt'' \<notin> {Path ''b.txt''} \<and>
   modified_files repo_feature ''master'' False False = Inr {Path ''b.txt'', Path ''m.txt''} \<and>
   committed_paths repo_feature ''master'' ''M'' = Inr {Path ''m.txt''} \<and>
   Path ''a.txt'' \<notin> {Path ''b.txt'', Path ''m.txt''} \<and>
   added_files repo_feature ''master'' False False = Inr {Path ''a.txt'', Path ''c.txt''} \<and>
   deleted_files repo_feature ''master'' False False = Inr {Path ''d.txt''} \<and>
   get_all_changed_files repo_feature ''master'' =
     Inr {Path ''a.txt'', Path ''d.txt'', Path ''m.txt'', Path ''y.txt''} \<and>
   Path ''a.txt'' \<in> {Path ''a.txt'', Path ''c.txt''}"
  using added_then_locally_modified [of "''master''" repo_feature "{Path ''a.txt''}"
      "Path ''a.txt''" "{Path ''a.txt'', Path ''b.txt''}" "{Path ''b.txt''}"
      "{Path ''b.txt'', Path ''m.txt''}" "{Path ''m.txt''}"
      False "{Path ''a.txt'', Path ''c.txt''}" "{Path ''d.txt''}"
      "{Path ''a.txt'', Path ''d.txt'', Path ''m.txt'', Path ''y.txt''}"]
  by (simp add: feature_added feature_modified feature_deleted feature_committed
      feature_staged feature_all_changed replace_origin_master startswith_def
      example_paths_distinct)

subsection \<open>Errors\<close>



































end
